theory Spec2Isabelle
  imports Main "HOL-Library.Word" "HOL-Library.Signed_Division"
begin

section \<open>Data model\<close>

text \<open>
  The span-properties policy of the tail sampling processor (package \<open>sampling\<close>).
  The wire types come from the OpenCensus protobuf bindings; only the fields the
  policy reads are kept. A Go pointer that may be nil is an \<open>option\<close>.
\<close>

text \<open>\<open>timestamp.Timestamp\<close>: \<open>Seconds\<close> is an int64, \<open>Nanos\<close> an int32.\<close>

record Timestamp =
  Seconds :: "64 word"
  Nanos :: "32 word"

text \<open>\<open>tracepb.TruncatableString\<close>, of which the policy reads \<open>Value\<close>.\<close>

record TruncatableString =
  Value :: string

text \<open>\<open>tracepb.Span\<close>: \<open>Name\<close>, \<open>StartTime\<close> and \<open>EndTime\<close> are pointers.\<close>

record Span =
  Name :: "TruncatableString option"
  StartTime :: "Timestamp option"
  EndTime :: "Timestamp option"

text \<open>
  Modelled from the spec: the batch type and the trace aggregate \<open>TraceData\<close> are
  declared outside the files at hand. A batch carries an ordered sequence of spans, each
  of which may be nil; the aggregate carries the ordered sequence of batches received so
  far, \<open>ReceivedBatches\<close>. The aggregate's lock is not part of the sequential model.
\<close>

record Batch =
  Spans :: "Span option list"

record TraceData =
  ReceivedBatches :: "Batch list"

text \<open>
  Modelled from the spec: the enumeration \<open>Decision\<close> is declared outside the files at
  hand; the policy returns the two outcomes below.
\<close>

datatype Decision = Sampled | NotSampled

text \<open>The 128-bit trace identifier; every entry point ignores it.\<close>

type_synonym TraceID = "128 word"

text \<open>
  Go's \<open>error\<close> values that the policy can return: an \<open>errors.New\<close> string, or the
  error of \<open>regexp.Compile\<close> (of type \<open>'e\<close>). A nil error is \<open>None\<close>.
\<close>

datatype 'e error = ErrorsNew string | CompileError 'e

text \<open>
  A call either returns or panics on a nil pointer dereference; Go has no other way out
  of the functions below.
\<close>

datatype 'a outcome = Returns 'a | NilPointerPanic

text \<open>
  The struct \<open>spanPropertiesFilter\<close>. The compiled expression \<open>*regexp.Regexp\<close> has the
  abstract type \<open>'re\<close>; the standard library's \<open>regexp.Compile\<close> and
  \<open>(*Regexp).MatchString\<close> are parameters of the functions that call them.
  \<open>minNumberOfSpans\<close> is a Go \<open>int\<close>, compared with a sum of slice lengths: both are
  taken as mathematical integers.
\<close>

record ('re, 'l) spanPropertiesFilter =
  operationRe :: "'re option"
  minDurationMicros :: "64 word option"
  minNumberOfSpans :: "int option"
  logger :: 'l

section \<open>Construction\<close>

definition NewSpanPropertiesFilter ::
  "(string \<Rightarrow> 'e + 're) \<Rightarrow> 'l \<Rightarrow> string option \<Rightarrow> 64 word option \<Rightarrow> int option
    \<Rightarrow> ('re, 'l) spanPropertiesFilter option \<times> 'e error option" where
  "NewSpanPropertiesFilter Compile lg operationNamePattern minDuration minSpans =
     (case (case operationNamePattern of
              None \<Rightarrow> Inr None
            | Some pat \<Rightarrow> (case Compile pat of Inl err \<Rightarrow> Inl err | Inr re \<Rightarrow> Inr (Some re))) of
        Inl err \<Rightarrow> (None, Some (CompileError err))
      | Inr re \<Rightarrow>
          if operationNamePattern = None \<and> minDuration = None \<and> minSpans = None
          then (None, Some (ErrorsNew ''at least one property must be defined''))
          else (Some \<lparr>operationRe = re, minDurationMicros = minDuration,
                      minNumberOfSpans = minSpans, logger = lg\<rparr>, None))"

section \<open>The hooks\<close>

text \<open>
  \<open>OnLateArrivingSpans\<close> has a pointer receiver: the model returns the receiver as the
  call leaves it, next to the error.
\<close>

definition OnLateArrivingSpans ::
  "('re, 'l) spanPropertiesFilter \<Rightarrow> Decision \<Rightarrow> Span option list
    \<Rightarrow> ('re, 'l) spanPropertiesFilter \<times> 'e error option" where
  "OnLateArrivingSpans df earlyDecision spans = (df, None)"

definition EvaluateSecondChance ::
  "('re, 'l) spanPropertiesFilter \<Rightarrow> TraceID \<Rightarrow> TraceData \<Rightarrow> Decision \<times> 'e error option" where
  "EvaluateSecondChance df traceID trace = (NotSampled, None)"

definition OnDroppedSpans ::
  "('re, 'l) spanPropertiesFilter \<Rightarrow> TraceID \<Rightarrow> TraceData \<Rightarrow> Decision \<times> 'e error option" where
  "OnDroppedSpans df traceID trace = (NotSampled, None)"

text \<open>A run of late-span notifications, threading the receiver; the errors are collected.\<close>

fun lateArrivals ::
  "('re, 'l) spanPropertiesFilter \<Rightarrow> (Decision \<times> Span option list) list
    \<Rightarrow> ('re, 'l) spanPropertiesFilter \<times> 'e error option list" where
  "lateArrivals df [] = (df, [])"
| "lateArrivals df ((d, spans) # calls) =
     (case OnLateArrivingSpans df d spans of
        (df', err) \<Rightarrow> (case lateArrivals df' calls of (df'', errs) \<Rightarrow> (df'', err # errs)))"

section \<open>Timestamps\<close>

text \<open>Go's \<open>/\<close> on int32 truncates towards zero; the divisor here is the constant 1000.\<close>

definition div_int32 :: "32 word \<Rightarrow> 32 word \<Rightarrow> 32 word" where
  "div_int32 a b = word_of_int (sint a sdiv sint b)"

text \<open>
  \<open>tsToMicros\<close> reads through its pointer argument, so a nil timestamp panics. The
  arithmetic is int64 and wraps; \<open>int64(...)\<close> sign-extends the int32 quotient.
\<close>

fun tsToMicros :: "Timestamp option \<Rightarrow> 64 word outcome" where
  "tsToMicros None = NilPointerPanic"
| "tsToMicros (Some ts) = Returns (Seconds ts * 1000000 + scast (div_int32 (Nanos ts) 1000))"

section \<open>Evaluate\<close>

text \<open>The local variables of \<open>Evaluate\<close> that the loops update.\<close>

record locals =
  matchingOperationFound :: bool
  spanCount :: int
  minStartTime :: "64 word"
  maxEndTime :: "64 word"

definition initLocals :: locals where
  "initLocals = \<lparr>matchingOperationFound = False, spanCount = 0, minStartTime = 0, maxEndTime = 0\<rparr>"

text \<open>The first statement of the inner loop's body: the operation name.\<close>

definition matchOperation ::
  "('re \<Rightarrow> string \<Rightarrow> bool) \<Rightarrow> ('re, 'l) spanPropertiesFilter \<Rightarrow> Span \<Rightarrow> locals \<Rightarrow> locals outcome" where
  "matchOperation MatchString df span st =
     (case operationRe df of
        None \<Rightarrow> Returns st
      | Some re \<Rightarrow>
          if \<not> matchingOperationFound st then
            (case Name span of
               None \<Rightarrow> NilPointerPanic
             | Some name \<Rightarrow>
                 if MatchString re (Value name)
                 then Returns (st\<lparr>matchingOperationFound := True\<rparr>)
                 else Returns st)
          else Returns st)"

text \<open>
  The update of the two bounds: \<open>minStartTime = 0\<close> stands for "not set yet"; the
  comparisons are signed.
\<close>

definition widen :: "64 word \<times> 64 word \<Rightarrow> 64 word \<times> 64 word \<Rightarrow> 64 word \<times> 64 word" where
  "widen bounds ts =
     (case bounds of (minStart, maxEnd) \<Rightarrow> case ts of (startTs, endTs) \<Rightarrow>
        if minStart = 0 then (startTs, endTs)
        else (if startTs <s minStart then startTs else minStart,
              if maxEnd <s endTs then endTs else maxEnd))"

text \<open>The second statement of the body: the duration bounds.\<close>

definition trackDuration ::
  "('re, 'l) spanPropertiesFilter \<Rightarrow> Span \<Rightarrow> locals \<Rightarrow> locals outcome" where
  "trackDuration df span st =
     (case minDurationMicros df of
        None \<Rightarrow> Returns st
      | Some _ \<Rightarrow>
          (case tsToMicros (StartTime span) of
             NilPointerPanic \<Rightarrow> NilPointerPanic
           | Returns startTs \<Rightarrow>
               (case tsToMicros (EndTime span) of
                  NilPointerPanic \<Rightarrow> NilPointerPanic
                | Returns endTs \<Rightarrow>
                    (case widen (minStartTime st, maxEndTime st) (startTs, endTs) of
                       (minStart, maxEnd) \<Rightarrow>
                         Returns (st\<lparr>minStartTime := minStart, maxEndTime := maxEnd\<rparr>)))))"

text \<open>The inner loop, over the spans of one batch; a nil span is skipped.\<close>

fun scanSpans ::
  "('re \<Rightarrow> string \<Rightarrow> bool) \<Rightarrow> ('re, 'l) spanPropertiesFilter \<Rightarrow> Span option list \<Rightarrow> locals
    \<Rightarrow> locals outcome" where
  "scanSpans MatchString df [] st = Returns st"
| "scanSpans MatchString df (None # rest) st = scanSpans MatchString df rest st"
| "scanSpans MatchString df (Some span # rest) st =
     (case matchOperation MatchString df span st of
        NilPointerPanic \<Rightarrow> NilPointerPanic
      | Returns st1 \<Rightarrow>
          (case trackDuration df span st1 of
             NilPointerPanic \<Rightarrow> NilPointerPanic
           | Returns st2 \<Rightarrow> scanSpans MatchString df rest st2))"

text \<open>The outer loop, over the batches: the count grows by the length of the span list.\<close>

fun scanBatches ::
  "('re \<Rightarrow> string \<Rightarrow> bool) \<Rightarrow> ('re, 'l) spanPropertiesFilter \<Rightarrow> Batch list \<Rightarrow> locals
    \<Rightarrow> locals outcome" where
  "scanBatches MatchString df [] st = Returns st"
| "scanBatches MatchString df (batch # rest) st =
     (case scanSpans MatchString df (Spans batch)
             (st\<lparr>spanCount := spanCount st + int (length (Spans batch))\<rparr>) of
        NilPointerPanic \<Rightarrow> NilPointerPanic
      | Returns st' \<Rightarrow> scanBatches MatchString df rest st')"

text \<open>The three conditions computed after the loops, and the decision.\<close>

definition decide :: "('re, 'l) spanPropertiesFilter \<Rightarrow> locals \<Rightarrow> Decision" where
  "decide df st =
     (let operationNameConditionMet =
            (case operationRe df of None \<Rightarrow> True | Some _ \<Rightarrow> matchingOperationFound st);
          minDurationConditionMet =
            (case minDurationMicros df of
               None \<Rightarrow> True
             | Some d \<Rightarrow> minStartTime st <s maxEndTime st \<and> d \<le>s maxEndTime st - minStartTime st);
          minSpanCountConditionMet =
            (case minNumberOfSpans df of None \<Rightarrow> True | Some k \<Rightarrow> k \<le> spanCount st)
      in if minDurationConditionMet \<and> operationNameConditionMet \<and> minSpanCountConditionMet
         then Sampled else NotSampled)"

definition Evaluate ::
  "('re \<Rightarrow> string \<Rightarrow> bool) \<Rightarrow> ('re, 'l) spanPropertiesFilter \<Rightarrow> TraceID \<Rightarrow> TraceData
    \<Rightarrow> (Decision \<times> 'e error option) outcome" where
  "Evaluate MatchString df traceID trace =
     (let batches = ReceivedBatches trace
      in case scanBatches MatchString df batches initLocals of
           NilPointerPanic \<Rightarrow> NilPointerPanic
         | Returns st \<Rightarrow> Returns (decide df st, None))"

section \<open>Notions used in the statements\<close>

text \<open>The entries of a span list that are not nil, in order.\<close>

fun dropNil :: "'a option list \<Rightarrow> 'a list" where
  "dropNil [] = []"
| "dropNil (None # rest) = dropNil rest"
| "dropNil (Some x # rest) = x # dropNil rest"

text \<open>All entries of all batches, in scan order, and those that are spans.\<close>

definition allSpans :: "TraceData \<Rightarrow> Span option list" where
  "allSpans trace = concat (map Spans (ReceivedBatches trace))"

definition nonNilSpans :: "TraceData \<Rightarrow> Span list" where
  "nonNilSpans trace = dropNil (allSpans trace)"

text \<open>A span none of whose three pointers is nil, and an aggregate of such spans.\<close>

definition complete :: "Span \<Rightarrow> bool" where
  "complete span = (Name span \<noteq> None \<and> StartTime span \<noteq> None \<and> EndTime span \<noteq> None)"

definition wellFormed :: "TraceData \<Rightarrow> bool" where
  "wellFormed trace = list_all complete (nonNilSpans trace)"

text \<open>The span has a name and the expression matches it.\<close>

definition nameMatches :: "('re \<Rightarrow> string \<Rightarrow> bool) \<Rightarrow> 're \<Rightarrow> Span \<Rightarrow> bool" where
  "nameMatches MatchString re span =
     (case Name span of None \<Rightarrow> False | Some name \<Rightarrow> MatchString re (Value name))"

text \<open>
  The start and end of a span in microseconds, as \<open>tsToMicros\<close> returns them (0 stands
  in where the timestamp is nil; the theorems read it only where the timestamp is set).
\<close>

definition microsOf :: "Timestamp option \<Rightarrow> 64 word" where
  "microsOf ts = (case tsToMicros ts of Returns m \<Rightarrow> m | NilPointerPanic \<Rightarrow> 0)"

definition spanTimes :: "Span \<Rightarrow> 64 word \<times> 64 word" where
  "spanTimes span = (microsOf (StartTime span), microsOf (EndTime span))"

subsection \<open>The three criteria, as the specification words them\<close>

text \<open>
  The least and the greatest of a list of int64 values in the signed order, 0 for the
  empty list.
\<close>

definition signedMin :: "64 word list \<Rightarrow> 64 word" where
  "signedMin xs =
     (case xs of [] \<Rightarrow> 0 | x # rest \<Rightarrow> foldl (\<lambda>m y. if y <s m then y else m) x rest)"

definition signedMax :: "64 word list \<Rightarrow> 64 word" where
  "signedMax xs =
     (case xs of [] \<Rightarrow> 0 | x # rest \<Rightarrow> foldl (\<lambda>m y. if m <s y then y else m) x rest)"

text \<open>
  An unconfigured criterion holds. The operation-name criterion: some non-nil span of
  some batch has a matching name. The span-count criterion: the count reaches the
  threshold, the count being the one \<open>Evaluate\<close> keeps (every entry of every span list).
  The duration criterion: the window from the least start to the greatest end over all
  non-nil spans is not degenerate and is at least as long as the threshold, in int64
  microseconds.
\<close>

definition operationNameCriterion ::
  "('re \<Rightarrow> string \<Rightarrow> bool) \<Rightarrow> ('re, 'l) spanPropertiesFilter \<Rightarrow> TraceData \<Rightarrow> bool" where
  "operationNameCriterion MatchString df trace =
     (case operationRe df of
        None \<Rightarrow> True
      | Some re \<Rightarrow> (\<exists>span \<in> set (nonNilSpans trace). nameMatches MatchString re span))"

definition spanCountCriterion :: "('re, 'l) spanPropertiesFilter \<Rightarrow> TraceData \<Rightarrow> bool" where
  "spanCountCriterion df trace =
     (case minNumberOfSpans df of
        None \<Rightarrow> True
      | Some k \<Rightarrow> k \<le> int (length (allSpans trace)))"

definition durationCriterion :: "('re, 'l) spanPropertiesFilter \<Rightarrow> TraceData \<Rightarrow> bool" where
  "durationCriterion df trace =
     (case minDurationMicros df of
        None \<Rightarrow> True
      | Some d \<Rightarrow>
          (let minStart = signedMin (map (fst \<circ> spanTimes) (nonNilSpans trace));
               maxEnd = signedMax (map (snd \<circ> spanTimes) (nonNilSpans trace))
           in minStart <s maxEnd \<and> d \<le>s maxEnd - minStart))"

subsection \<open>Aggregates on which the criteria can be read\<close>

text \<open>
  Every non-nil span has the fields that the configured criteria read: a name if a
  pattern is configured, both timestamps if a minimum duration is configured.
\<close>

definition readable :: "('re, 'l) spanPropertiesFilter \<Rightarrow> TraceData \<Rightarrow> bool" where
  "readable df trace =
     ((operationRe df \<noteq> None \<longrightarrow> list_all (\<lambda>span. Name span \<noteq> None) (nonNilSpans trace))
      \<and> (minDurationMicros df \<noteq> None
           \<longrightarrow> list_all (\<lambda>span. StartTime span \<noteq> None \<and> EndTime span \<noteq> None)
                 (nonNilSpans trace)))"

text \<open>If a minimum duration is configured, no non-nil span starts at 0 microseconds.\<close>

definition noZeroStart :: "('re, 'l) spanPropertiesFilter \<Rightarrow> TraceData \<Rightarrow> bool" where
  "noZeroStart df trace =
     (minDurationMicros df \<noteq> None
        \<longrightarrow> list_all (\<lambda>span. tsToMicros (StartTime span) \<noteq> Returns 0) (nonNilSpans trace))"

subsection \<open>The locals after a scan\<close>

text \<open>
  What the inner loop leaves in the locals when it runs over the spans \<open>xs\<close> and
  returns: a match is on record if one was before or some span matches; the bounds
  are those of \<open>widen\<close> folded over the spans; the count is untouched.
\<close>

definition scanned ::
  "('re \<Rightarrow> string \<Rightarrow> bool) \<Rightarrow> ('re, 'l) spanPropertiesFilter \<Rightarrow> Span list \<Rightarrow> locals \<Rightarrow> locals" where
  "scanned M df xs st =
     st\<lparr>matchingOperationFound :=
           (matchingOperationFound st
            \<or> (case operationRe df of None \<Rightarrow> False | Some re \<Rightarrow> \<exists>span \<in> set xs. nameMatches M re span)),
        minStartTime :=
           (case minDurationMicros df of
              None \<Rightarrow> minStartTime st
            | Some _ \<Rightarrow> fst (foldl widen (minStartTime st, maxEndTime st) (map spanTimes xs))),
        maxEndTime :=
           (case minDurationMicros df of
              None \<Rightarrow> maxEndTime st
            | Some _ \<Rightarrow> snd (foldl widen (minStartTime st, maxEndTime st) (map spanTimes xs)))\<rparr>"

section \<open>Concrete inputs\<close>

text \<open>
  Stand-ins for the regular-expression library where a statement is evaluated: every
  pattern is taken literally, and a lone opening parenthesis does not compile.
\<close>

definition literalMatch :: "string \<Rightarrow> string \<Rightarrow> bool" where
  "literalMatch re s = (s = re)"

definition literalCompile :: "string \<Rightarrow> string + string" where
  "literalCompile pat = (if pat = ''('' then Inl ''missing closing )'' else Inr pat)"

text \<open>A timestamp a whole number of microseconds after the epoch, and a span between two.\<close>

definition atMicros :: "32 word \<Rightarrow> Timestamp" where
  "atMicros us = \<lparr>Seconds = 0, Nanos = us * 1000\<rparr>"

definition spanBetween :: "string \<Rightarrow> 32 word \<Rightarrow> 32 word \<Rightarrow> Span" where
  "spanBetween name s e =
     \<lparr>Name = Some \<lparr>Value = name\<rparr>, StartTime = Some (atMicros s), EndTime = Some (atMicros e)\<rparr>"

text \<open>Two batches of one span each: 0 to 100 microseconds, then 50 to 300.\<close>

definition twoBatches :: TraceData where
  "twoBatches =
     \<lparr>ReceivedBatches = [\<lparr>Spans = [Some (spanBetween ''a'' 0 100)]\<rparr>,
                         \<lparr>Spans = [Some (spanBetween ''b'' 50 300)]\<rparr>]\<rparr>"

text \<open>The same two batches in the other order.\<close>

definition twoBatchesSwapped :: TraceData where
  "twoBatchesSwapped =
     \<lparr>ReceivedBatches = [\<lparr>Spans = [Some (spanBetween ''b'' 50 300)]\<rparr>,
                         \<lparr>Spans = [Some (spanBetween ''a'' 0 100)]\<rparr>]\<rparr>"

text \<open>Policies with one criterion configured.\<close>

definition durationOnly :: "64 word \<Rightarrow> (string, unit) spanPropertiesFilter" where
  "durationOnly d =
     \<lparr>operationRe = None, minDurationMicros = Some d, minNumberOfSpans = None, logger = ()\<rparr>"

definition countOnly :: "int \<Rightarrow> (string, unit) spanPropertiesFilter" where
  "countOnly k =
     \<lparr>operationRe = None, minDurationMicros = None, minNumberOfSpans = Some k, logger = ()\<rparr>"

definition nameOnly :: "string \<Rightarrow> (string, unit) spanPropertiesFilter" where
  "nameOnly re =
     \<lparr>operationRe = Some re, minDurationMicros = None, minNumberOfSpans = None, logger = ()\<rparr>"

definition allThree :: "(string, unit) spanPropertiesFilter" where
  "allThree =
     \<lparr>operationRe = Some ''b'', minDurationMicros = Some 200, minNumberOfSpans = Some 2,
      logger = ()\<rparr>"

text \<open>Spans with a nil pointer: no name, no start time.\<close>

definition namelessSpan :: Span where
  "namelessSpan = \<lparr>Name = None, StartTime = Some (atMicros 0), EndTime = Some (atMicros 1)\<rparr>"

definition timelessSpan :: Span where
  "timelessSpan = \<lparr>Name = Some \<lparr>Value = ''GET''\<rparr>, StartTime = None, EndTime = Some (atMicros 1)\<rparr>"

text \<open>One batch whose only entry is nil; one batch with a nil entry and a span.\<close>

definition nilOnly :: TraceData where
  "nilOnly = \<lparr>ReceivedBatches = [\<lparr>Spans = [None]\<rparr>]\<rparr>"

definition nilAndSpan :: TraceData where
  "nilAndSpan = \<lparr>ReceivedBatches = [\<lparr>Spans = [None, Some (spanBetween ''a'' 10 100)]\<rparr>]\<rparr>"

text \<open>A span named GET followed by a nameless one; a span named POST followed by one.\<close>

definition matchThenNameless :: TraceData where
  "matchThenNameless =
     \<lparr>ReceivedBatches = [\<lparr>Spans = [Some (spanBetween ''GET'' 10 100), Some namelessSpan]\<rparr>]\<rparr>"

definition otherThenNameless :: TraceData where
  "otherThenNameless =
     \<lparr>ReceivedBatches = [\<lparr>Spans = [Some (spanBetween ''POST'' 10 100), Some namelessSpan]\<rparr>]\<rparr>"

text \<open>A nameless span followed by a span named GET.\<close>

definition namelessThenMatch :: TraceData where
  "namelessThenMatch =
     \<lparr>ReceivedBatches = [\<lparr>Spans = [Some namelessSpan, Some (spanBetween ''GET'' 10 100)]\<rparr>]\<rparr>"

text \<open>Two batches, spans from 10 to 100 and from 50 to 300 microseconds, and a nil entry.\<close>

definition twoLate :: TraceData where
  "twoLate =
     \<lparr>ReceivedBatches = [\<lparr>Spans = [Some (spanBetween ''a'' 10 100)]\<rparr>,
                         \<lparr>Spans = [None, Some (spanBetween ''b'' 50 300)]\<rparr>]\<rparr>"

text \<open>A batch with a span that has no start time.\<close>

definition timelessTrace :: TraceData where
  "timelessTrace = \<lparr>ReceivedBatches = [\<lparr>Spans = [Some timelessSpan]\<rparr>]\<rparr>"

text \<open>The aggregate with no batch at all.\<close>

definition emptyTrace :: TraceData where
  "emptyTrace = \<lparr>ReceivedBatches = []\<rparr>"

text \<open>\<open>Evaluate\<close> with the literal matcher, at the types of the examples.\<close>

definition EvaluateLiteral ::
  "(string, unit) spanPropertiesFilter \<Rightarrow> TraceData \<Rightarrow> (Decision \<times> string error option) outcome" where
  "EvaluateLiteral df trace = Evaluate literalMatch df 0 trace"

section \<open>Unfolding for concrete inputs\<close>

lemmas evaluate_defs =
  EvaluateLiteral_def Evaluate_def decide_def initLocals_def trackDuration_def
  matchOperation_def widen_def div_int32_def signed_divide_int_def word_sless_alt
  word_sle_eq literalMatch_def

lemmas input_defs =
  twoBatches_def twoBatchesSwapped_def spanBetween_def atMicros_def durationOnly_def
  countOnly_def nameOnly_def allThree_def namelessSpan_def timelessSpan_def nilOnly_def
  nilAndSpan_def matchThenNameless_def otherThenNameless_def timelessTrace_def
  emptyTrace_def namelessThenMatch_def twoLate_def

lemmas criteria_defs =
  wellFormed_def nonNilSpans_def allSpans_def complete_def operationNameCriterion_def
  durationCriterion_def spanCountCriterion_def nameMatches_def spanTimes_def microsOf_def
  readable_def noZeroStart_def signedMin_def signedMax_def

section \<open>Properties of construction\<close>

text \<open>
  C4. Construction returns an error and no evaluator exactly when all three criteria are
  nil or the pattern does not compile. With all three nil the error is "at least one
  property must be defined"; with a pattern that does not compile it is the error of
  the compilation; in every other case an evaluator comes back with a nil error.
\<close>

theorem NewSpanPropertiesFilter_error_iff:
  "(let r = NewSpanPropertiesFilter Compile lg pat minDuration minSpans;
        allNil = (pat = None \<and> minDuration = None \<and> minSpans = None);
        badPattern = (\<exists>p err. pat = Some p \<and> Compile p = Inl err)
    in ((fst r = None \<and> snd r \<noteq> None) = (allNil \<or> badPattern))
       \<and> (allNil \<longrightarrow> r = (None, Some (ErrorsNew ''at least one property must be defined'')))
       \<and> (\<forall>p err. pat = Some p \<and> Compile p = Inl err \<longrightarrow> r = (None, Some (CompileError err)))
       \<and> (\<not> allNil \<and> \<not> badPattern \<longrightarrow> fst r \<noteq> None \<and> snd r = None))"
  by (auto simp add: NewSpanPropertiesFilter_def Let_def split: option.splits sum.splits)

theorem NewSpanPropertiesFilter_error_iff_witness:
  "NewSpanPropertiesFilter literalCompile () None None None
     = (None, Some (ErrorsNew ''at least one property must be defined''))
   \<and> literalCompile ''('' = Inl ''missing closing )''
   \<and> NewSpanPropertiesFilter literalCompile () (Some ''('') (Some 5) None
     = (None, Some (CompileError ''missing closing )''))
   \<and> fst (NewSpanPropertiesFilter literalCompile () (Some ''GET'') None None) \<noteq> None
   \<and> snd (NewSpanPropertiesFilter literalCompile () (Some ''GET'') None None) = None"
  using NewSpanPropertiesFilter_error_iff [of literalCompile "()" None None None]
    NewSpanPropertiesFilter_error_iff [of literalCompile "()" "Some ''(''" "Some 5" None]
    NewSpanPropertiesFilter_error_iff [of literalCompile "()" "Some ''GET''" None None]
  by (simp add: Let_def literalCompile_def)

section \<open>Properties of the hooks\<close>

text \<open>
  C5. For every policy, trace identifier and aggregate, \<open>EvaluateSecondChance\<close> and
  \<open>OnDroppedSpans\<close> return \<open>NotSampled\<close> with a nil error.
\<close>

theorem hooks_return_NotSampled:
  "EvaluateSecondChance df traceID trace = (NotSampled, None)
   \<and> OnDroppedSpans df traceID trace = (NotSampled, None)"
  by (simp add: EvaluateSecondChance_def OnDroppedSpans_def)

lemma lateArrivals_unchanged:
  "lateArrivals df calls = (df, replicate (length calls) None)"
  by (induction calls arbitrary: df) (auto simp: OnLateArrivingSpans_def)

text \<open>
  C6. \<open>OnLateArrivingSpans\<close> returns a nil error and leaves the policy as it was, for
  every earlier decision and span list; after any run of such calls \<open>Evaluate\<close> and
  \<open>EvaluateSecondChance\<close> return what they return on the policy before the run.
\<close>

theorem OnLateArrivingSpans_no_effect:
  "OnLateArrivingSpans df earlyDecision spans = (df, None)
   \<and> lateArrivals df calls = (df, replicate (length calls) None)
   \<and> Evaluate MatchString (fst (lateArrivals df calls)) traceID trace
       = Evaluate MatchString df traceID trace
   \<and> EvaluateSecondChance (fst (lateArrivals df calls)) traceID trace
       = EvaluateSecondChance df traceID trace"
  by (simp add: lateArrivals_unchanged OnLateArrivingSpans_def)

section \<open>Properties of the conversion\<close>

lemma sint_div_int32_1000:
  assumes "0 \<le> sint n"
  shows "sint (div_int32 n 1000) = sint n div 1000"
proof -
  have lt: "sint n < 2 ^ 31" using sint_lt [of n] by simp
  have q: "sint n sdiv sint (1000 :: 32 word) = sint n div 1000"
    using assms by (simp add: signed_divide_int_def sgn_if)
  have lo: "- (2 ^ 31) \<le> sint n div 1000" using assms by simp
  have "sint n div 1000 \<le> sint n" using assms by (simp add: div_le_dividend)
  then have hi: "sint n div 1000 < 2 ^ 31" using lt by simp
  have "sint (div_int32 n 1000) = signed_take_bit 31 (sint n div 1000)"
    by (simp only: div_int32_def q sint_sbintrunc') simp
  also have "\<dots> = sint n div 1000"
    by (rule signed_take_bit_int_eq_self [OF lo hi])
  finally show ?thesis .
qed

lemma sint_word_of_int_64:
  "- (2 ^ 63) \<le> k \<Longrightarrow> k < 2 ^ 63 \<Longrightarrow> sint (word_of_int k :: 64 word) = k"
  by (simp add: sint_sbintrunc' signed_take_bit_int_eq_self)

lemma tsToMicros_word_of_int:
  assumes "0 \<le> sint (Nanos ts)"
  shows "tsToMicros (Some ts) =
     Returns (word_of_int (sint (Seconds ts) * 1000000 + sint (Nanos ts) div 1000))"
proof -
  have "(scast (div_int32 (Nanos ts) 1000) :: 64 word) = word_of_int (sint (Nanos ts) div 1000)"
    using sint_div_int32_1000 [OF assms] by (simp add: scast_eq)
  then show ?thesis by simp
qed

text \<open>
  C7, as stated, fails where the product leaves the int64 range: with \<open>2 ^ 62\<close> seconds
  and 5000 nanoseconds the function returns 5.
\<close>

theorem tsToMicros_overflow_counterexample:
  "tsToMicros (Some \<lparr>Seconds = 2 ^ 62, Nanos = 5000\<rparr>) = Returns 5
   \<and> 0 \<le> sint (5000 :: 32 word)
   \<and> sint (5 :: 64 word) \<noteq> sint (2 ^ 62 :: 64 word) * 1000000 + sint (5000 :: 32 word) div 1000"
  by (simp add: div_int32_def signed_divide_int_def)

text \<open>
  C7, amended. For a timestamp with seconds \<open>s\<close> and non-negative nanoseconds \<open>n\<close>,
  \<open>tsToMicros\<close> returns \<open>s * 1000000 + n div 1000\<close> reduced to 64 bits (two's
  complement); when that number lies in the int64 range, the result is exactly it. The
  remainder below one microsecond is dropped.
\<close>

theorem tsToMicros_exact_in_range:
  assumes "0 \<le> sint (Nanos ts)"
  shows "tsToMicros (Some ts) =
           Returns (word_of_int (sint (Seconds ts) * 1000000 + sint (Nanos ts) div 1000))
         \<and> (- (2 ^ 63) \<le> sint (Seconds ts) * 1000000 + sint (Nanos ts) div 1000
              \<and> sint (Seconds ts) * 1000000 + sint (Nanos ts) div 1000 < 2 ^ 63
            \<longrightarrow> (\<exists>r. tsToMicros (Some ts) = Returns r
                      \<and> sint r = sint (Seconds ts) * 1000000 + sint (Nanos ts) div 1000))"
proof (intro conjI impI)
  show eq: "tsToMicros (Some ts) =
      Returns (word_of_int (sint (Seconds ts) * 1000000 + sint (Nanos ts) div 1000))"
    by (rule tsToMicros_word_of_int [OF assms])
  assume "- (2 ^ 63) \<le> sint (Seconds ts) * 1000000 + sint (Nanos ts) div 1000
          \<and> sint (Seconds ts) * 1000000 + sint (Nanos ts) div 1000 < 2 ^ 63"
  then have "sint (word_of_int (sint (Seconds ts) * 1000000 + sint (Nanos ts) div 1000) :: 64 word)
             = sint (Seconds ts) * 1000000 + sint (Nanos ts) div 1000"
    by (intro sint_word_of_int_64) simp_all
  with eq show "\<exists>r. tsToMicros (Some ts) = Returns r
      \<and> sint r = sint (Seconds ts) * 1000000 + sint (Nanos ts) div 1000"
    by blast
qed

theorem tsToMicros_exact_in_range_witness:
  "0 \<le> sint (Nanos \<lparr>Seconds = 1, Nanos = 1999\<rparr>)
   \<and> tsToMicros (Some \<lparr>Seconds = 1, Nanos = 1999\<rparr>) = Returns 1000001
   \<and> sint (1000001 :: 64 word) = 1 * 1000000 + 1999 div 1000"
  using tsToMicros_exact_in_range [of "\<lparr>Seconds = 1, Nanos = 1999\<rparr>"]
  by simp

section \<open>The window of the duration criterion\<close>

text \<open>With the two batches in the other order the duration compared is 300.\<close>

lemma Evaluate_twoBatchesSwapped:
  "EvaluateLiteral (durationOnly 300) twoBatchesSwapped = Returns (Sampled, None)
   \<and> EvaluateLiteral (durationOnly 301) twoBatchesSwapped = Returns (NotSampled, None)"
  by (simp add: evaluate_defs twoBatchesSwapped_def spanBetween_def atMicros_def
        durationOnly_def)

text \<open>
  C1. On two batches of one span each, from 0 to 100 and from 50 to 300 microseconds,
  the loop ends with the bounds 50 and 300: a start time of 0 is taken for "not set
  yet", and the second span sets both bounds anew. The duration compared with the
  threshold is 250, so a minimum of 300 gives \<open>NotSampled\<close>, as 301 and 251 do, and 250
  is the largest minimum that gives \<open>Sampled\<close>.
\<close>

theorem Evaluate_twoBatches_zero_start:
  "scanBatches literalMatch (durationOnly 300) (ReceivedBatches twoBatches) initLocals
     = Returns \<lparr>matchingOperationFound = False, spanCount = 2,
                minStartTime = 50, maxEndTime = 300\<rparr>
   \<and> EvaluateLiteral (durationOnly 300) twoBatches = Returns (NotSampled, None)
   \<and> EvaluateLiteral (durationOnly 301) twoBatches = Returns (NotSampled, None)
   \<and> EvaluateLiteral (durationOnly 251) twoBatches = Returns (NotSampled, None)
   \<and> EvaluateLiteral (durationOnly 250) twoBatches = Returns (Sampled, None)"
  by (simp add: evaluate_defs twoBatches_def spanBetween_def atMicros_def durationOnly_def)

section \<open>The loops\<close>

lemma scanSpans_append:
  "scanSpans M df (xs @ ys) st =
     (case scanSpans M df xs st of
        NilPointerPanic \<Rightarrow> NilPointerPanic
      | Returns st' \<Rightarrow> scanSpans M df ys st')"
proof (induction xs arbitrary: st)
  case Nil
  show ?case by simp
next
  case (Cons x xs)
  show ?case
  proof (cases x)
    case None
    then show ?thesis using Cons.IH by simp
  next
    case (Some span)
    then show ?thesis using Cons.IH by (simp split: outcome.splits)
  qed
qed

lemma matchOperation_spanCount:
  "matchOperation M df span st = Returns st' \<Longrightarrow> spanCount st' = spanCount st"
  by (auto simp: matchOperation_def split: option.splits if_splits)

lemma trackDuration_spanCount:
  "trackDuration df span st = Returns st' \<Longrightarrow> spanCount st' = spanCount st"
  by (auto simp: trackDuration_def split: option.splits outcome.splits prod.splits)

lemma scanSpans_spanCount:
  "scanSpans M df xs st = Returns st' \<Longrightarrow> spanCount st' = spanCount st"
proof (induction xs arbitrary: st)
  case Nil
  then show ?case by simp
next
  case (Cons x xs)
  show ?case
  proof (cases x)
    case None
    then show ?thesis using Cons by simp
  next
    case (Some span)
    with Cons.prems obtain st1 st2 where
      1: "matchOperation M df span st = Returns st1" and
      2: "trackDuration df span st1 = Returns st2" and
      3: "scanSpans M df xs st2 = Returns st'"
      by (auto split: outcome.splits)
    from Cons.IH [OF 3] matchOperation_spanCount [OF 1] trackDuration_spanCount [OF 2]
    show ?thesis by simp
  qed
qed

lemma matchOperation_set_spanCount:
  "matchOperation M df span (st\<lparr>spanCount := c\<rparr>) =
     (case matchOperation M df span st of
        NilPointerPanic \<Rightarrow> NilPointerPanic
      | Returns st' \<Rightarrow> Returns (st'\<lparr>spanCount := c\<rparr>))"
  by (simp add: matchOperation_def split: option.splits)

lemma trackDuration_set_spanCount:
  "trackDuration df span (st\<lparr>spanCount := c\<rparr>) =
     (case trackDuration df span st of
        NilPointerPanic \<Rightarrow> NilPointerPanic
      | Returns st' \<Rightarrow> Returns (st'\<lparr>spanCount := c\<rparr>))"
  by (simp add: trackDuration_def split: option.splits outcome.splits prod.splits)

lemma scanSpans_set_spanCount:
  "scanSpans M df xs (st\<lparr>spanCount := c\<rparr>) =
     (case scanSpans M df xs st of
        NilPointerPanic \<Rightarrow> NilPointerPanic
      | Returns st' \<Rightarrow> Returns (st'\<lparr>spanCount := c\<rparr>))"
proof (induction xs arbitrary: st)
  case Nil
  show ?case by simp
next
  case (Cons x xs)
  show ?case
  proof (cases x)
    case None
    then show ?thesis using Cons.IH by simp
  next
    case (Some span)
    then show ?thesis
      using Cons.IH
      by (simp add: matchOperation_set_spanCount trackDuration_set_spanCount
               split: outcome.splits)
  qed
qed

lemma scanBatches_flat:
  "scanBatches M df bs st =
     (case scanSpans M df (concat (map Spans bs)) st of
        NilPointerPanic \<Rightarrow> NilPointerPanic
      | Returns st' \<Rightarrow>
          Returns (st'\<lparr>spanCount := spanCount st + int (length (concat (map Spans bs)))\<rparr>))"
proof (induction bs arbitrary: st)
  case Nil
  show ?case by simp
next
  case (Cons b bs)
  show ?case
  proof (cases "scanSpans M df (Spans b) st")
    case NilPointerPanic
    then show ?thesis
      by (simp add: scanSpans_append scanSpans_set_spanCount)
  next
    case (Returns st1)
    have c: "spanCount st1 = spanCount st" by (rule scanSpans_spanCount [OF Returns])
    show ?thesis
    proof (cases "scanSpans M df (concat (map Spans bs)) st1")
      case NilPointerPanic
      then show ?thesis using Returns
        by (simp add: scanSpans_append scanSpans_set_spanCount Cons.IH)
    next
      case (Returns st2)
      then show ?thesis using \<open>scanSpans M df (Spans b) st = Returns st1\<close> c
        by (simp add: scanSpans_append scanSpans_set_spanCount Cons.IH add.assoc)
    qed
  qed
qed

lemma scanSpans_dropNil:
  "scanSpans M df xs st = scanSpans M df (map Some (dropNil xs)) st"
  by (induction xs arbitrary: st rule: dropNil.induct) (simp_all split: outcome.splits)


lemma scanSpans_unconfigured:
  "operationRe df = None \<Longrightarrow> minDurationMicros df = None \<Longrightarrow> scanSpans M df xs st = Returns st"
  by (induction xs arbitrary: st rule: dropNil.induct)
     (simp_all add: matchOperation_def trackDuration_def)

subsection \<open>The locals the scan returns\<close>

lemma scanned_Nil: "scanned M df [] st = st"
  by (simp add: scanned_def split: option.splits)

lemma step_complete:
  assumes "complete span"
  shows "\<exists>st2. matchOperation M df span st = Returns (st\<lparr>matchingOperationFound :=
            (matchingOperationFound st
             \<or> (case operationRe df of None \<Rightarrow> False | Some re \<Rightarrow> nameMatches M re span))\<rparr>)
         \<and> trackDuration df span (st\<lparr>matchingOperationFound :=
            (matchingOperationFound st
             \<or> (case operationRe df of None \<Rightarrow> False | Some re \<Rightarrow> nameMatches M re span))\<rparr>)
            = Returns st2
         \<and> st2 = scanned M df [span] st"
  using assms
  by (auto simp: complete_def matchOperation_def trackDuration_def scanned_def nameMatches_def
        spanTimes_def microsOf_def split: option.splits prod.splits)

lemma scanned_Cons:
  "scanned M df (span # xs) st = scanned M df xs (scanned M df [span] st)"
  by (auto simp: scanned_def split: option.splits)

lemma scanSpans_complete:
  "list_all complete xs \<Longrightarrow> scanSpans M df (map Some xs) st = Returns (scanned M df xs st)"
proof (induction xs arbitrary: st)
  case Nil
  show ?case by (simp add: scanned_Nil)
next
  case (Cons span xs)
  then have c: "complete span" and cs: "list_all complete xs" by simp_all
  from step_complete [OF c, of M df st] obtain st1 where
    1: "matchOperation M df span st = Returns st1" and
    2: "trackDuration df span st1 = Returns (scanned M df [span] st)"
    by blast
  show ?case
    using 1 2 Cons.IH [OF cs, of "scanned M df [span] st"]
    by (simp add: scanned_Cons [of M df span xs st])
qed



subsection \<open>Evaluate through the non-nil spans\<close>

lemma scanBatches_nonNil:
  "scanBatches M df (ReceivedBatches trace) initLocals =
     (case scanSpans M df (map Some (nonNilSpans trace)) initLocals of
        NilPointerPanic \<Rightarrow> NilPointerPanic
      | Returns st \<Rightarrow> Returns (st\<lparr>spanCount := int (length (allSpans trace))\<rparr>))"
  using scanSpans_dropNil [of M df "allSpans trace" initLocals]
  by (simp add: scanBatches_flat nonNilSpans_def allSpans_def initLocals_def
        split: outcome.splits)

lemma Evaluate_nonNil:
  "Evaluate M df tid trace =
     (case scanSpans M df (map Some (nonNilSpans trace)) initLocals of
        NilPointerPanic \<Rightarrow> NilPointerPanic
      | Returns st \<Rightarrow> Returns (decide df (st\<lparr>spanCount := int (length (allSpans trace))\<rparr>), None))"
  by (simp add: Evaluate_def scanBatches_nonNil split: outcome.splits)

subsection \<open>The scan returns where every pointer it reads is set\<close>

lemma step_found:
  assumes "matchOperation M df span st = Returns st1"
    and "trackDuration df span st1 = Returns st2"
    and "matchingOperationFound st"
  shows "matchingOperationFound st2"
  using assms
  by (auto simp: matchOperation_def trackDuration_def
        split: option.splits prod.splits if_splits outcome.splits)

lemma step_returns:
  assumes "matchingOperationFound st \<or> operationRe df = None \<or> Name span \<noteq> None"
    and "minDurationMicros df = None \<or> (StartTime span \<noteq> None \<and> EndTime span \<noteq> None)"
  shows "\<exists>st1 st2. matchOperation M df span st = Returns st1
           \<and> trackDuration df span st1 = Returns st2"
  using assms
  by (auto simp: matchOperation_def trackDuration_def split: option.splits prod.splits)

lemma scanSpans_returns:
  assumes "matchingOperationFound st \<or> operationRe df = None \<or> (\<forall>span \<in> set xs. Name span \<noteq> None)"
    and "minDurationMicros df = None
         \<or> (\<forall>span \<in> set xs. StartTime span \<noteq> None \<and> EndTime span \<noteq> None)"
  shows "\<exists>st'. scanSpans M df (map Some xs) st = Returns st'"
  using assms
proof (induction xs arbitrary: st)
  case Nil
  show ?case by simp
next
  case (Cons span xs)
  from Cons.prems obtain st1 st2 where
    1: "matchOperation M df span st = Returns st1" and
    2: "trackDuration df span st1 = Returns st2"
    using step_returns [of st df span M] by auto
  have a: "matchingOperationFound st2 \<or> operationRe df = None
           \<or> (\<forall>span \<in> set xs. Name span \<noteq> None)"
    using Cons.prems(1) step_found [OF 1 2] by auto
  have b: "minDurationMicros df = None
           \<or> (\<forall>span \<in> set xs. StartTime span \<noteq> None \<and> EndTime span \<noteq> None)"
    using Cons.prems(2) by auto
  from Cons.IH [OF a b] show ?case using 1 2 by simp
qed

subsection \<open>The window without a start at zero\<close>

text \<open>\<open>signedMin\<close> and \<open>signedMax\<close> are bounds of the list in the signed order.\<close>

lemma foldl_signedMin_le:
  "foldl (\<lambda>m y. if y <s m then y else m) m ys \<le>s m
   \<and> (\<forall>y \<in> set ys. foldl (\<lambda>m y. if y <s m then y else m) m ys \<le>s y)"
proof (induction ys arbitrary: m)
  case Nil
  show ?case by simp
next
  case (Cons y ys)
  show ?case
    using Cons.IH [of "if y <s m then y else m"]
    by (auto simp: word_sle_eq word_sless_alt split: if_splits)
qed

lemma signedMin_least: "x \<in> set xs \<Longrightarrow> signedMin xs \<le>s x"
  using foldl_signedMin_le by (cases xs) (auto simp: signedMin_def)

lemma foldl_signedMax_ge:
  "m \<le>s foldl (\<lambda>m y. if m <s y then y else m) m ys
   \<and> (\<forall>y \<in> set ys. y \<le>s foldl (\<lambda>m y. if m <s y then y else m) m ys)"
proof (induction ys arbitrary: m)
  case Nil
  show ?case by simp
next
  case (Cons y ys)
  show ?case
    using Cons.IH [of "if m <s y then y else m"]
    by (auto simp: word_sle_eq word_sless_alt split: if_splits)
qed

lemma signedMax_greatest: "x \<in> set xs \<Longrightarrow> x \<le>s signedMax xs"
  using foldl_signedMax_ge by (cases xs) (auto simp: signedMax_def)







subsection \<open>Nil fields\<close>

text \<open>A span with a nil name panics unless a match was found before it.\<close>

lemma scanSpans_no_match:
  assumes "operationRe df = Some re"
    and "\<not> matchingOperationFound st"
    and "\<forall>p \<in> set pre. \<not> nameMatches M re p"
    and "scanSpans M df (map Some pre) st = Returns st'"
  shows "\<not> matchingOperationFound st'"
  using assms(2-4)
proof (induction pre arbitrary: st)
  case Nil
  then show ?case by simp
next
  case (Cons p pre)
  from Cons.prems(3) obtain st1 st2 where
    1: "matchOperation M df p st = Returns st1" and
    2: "trackDuration df p st1 = Returns st2" and
    3: "scanSpans M df (map Some pre) st2 = Returns st'"
    by (auto split: outcome.splits)
  from 1 Cons.prems(1,2) assms(1) have "\<not> matchingOperationFound st1"
    by (auto simp: matchOperation_def nameMatches_def split: option.splits if_splits)
  with 2 have "\<not> matchingOperationFound st2"
    by (auto simp: trackDuration_def split: option.splits outcome.splits prod.splits)
  from Cons.IH [OF this _ 3] Cons.prems(2) show ?case by simp
qed

lemma scanSpans_nil_name:
  assumes "operationRe df = Some re"
    and "\<not> matchingOperationFound st"
    and "\<forall>p \<in> set pre. \<not> nameMatches M re p"
    and "Name s = None"
  shows "scanSpans M df (map Some (pre @ s # post)) st = NilPointerPanic"
proof (cases "scanSpans M df (map Some pre) st")
  case NilPointerPanic
  then show ?thesis by (simp add: scanSpans_append)
next
  case (Returns st')
  have "\<not> matchingOperationFound st'"
    by (rule scanSpans_no_match [OF assms(1-3) Returns])
  then have "matchOperation M df s st' = NilPointerPanic"
    using assms(1,4) by (simp add: matchOperation_def)
  then show ?thesis using Returns by (simp add: scanSpans_append)
qed

lemma trackDuration_nil_time:
  "minDurationMicros df \<noteq> None \<Longrightarrow> StartTime s = None \<or> EndTime s = None
    \<Longrightarrow> trackDuration df s st = NilPointerPanic"
  by (auto simp: trackDuration_def split: option.splits outcome.splits)

lemma scanSpans_nil_time:
  assumes "minDurationMicros df \<noteq> None"
    and "s \<in> set xs"
    and "StartTime s = None \<or> EndTime s = None"
  shows "scanSpans M df (map Some xs) st = NilPointerPanic"
  using assms(2)
proof (induction xs arbitrary: st)
  case Nil
  then show ?case by simp
next
  case (Cons x xs)
  show ?case
  proof (cases "x = s")
    case True
    then show ?thesis
      using trackDuration_nil_time [OF assms(1,3)]
      by (simp split: outcome.splits)
  next
    case False
    with Cons.prems have "s \<in> set xs" by simp
    from Cons.IH [OF this] show ?thesis by (simp split: outcome.splits)
  qed
qed

text \<open>After a match the names are no longer read.\<close>

lemma scanSpans_after_match:
  assumes re: "operationRe df = Some re"
    and pre: "\<forall>p \<in> set pre. Name p \<noteq> None"
    and m: "nameMatches M re m"
    and times: "minDurationMicros df = None
         \<or> (\<forall>span \<in> set (pre @ m # post). StartTime span \<noteq> None \<and> EndTime span \<noteq> None)"
  shows "\<exists>st'. scanSpans M df (map Some (pre @ m # post)) st = Returns st'"
proof -
  have "\<exists>st1. scanSpans M df (map Some pre) st = Returns st1"
    using pre times by (intro scanSpans_returns) auto
  then obtain st1 where 1: "scanSpans M df (map Some pre) st = Returns st1" by blast
  from m have nm: "Name m \<noteq> None" by (auto simp: nameMatches_def split: option.splits)
  have "\<exists>st2 st3. matchOperation M df m st1 = Returns st2
          \<and> trackDuration df m st2 = Returns st3"
    using nm times by (intro step_returns) auto
  then obtain st2 st3 where
    2: "matchOperation M df m st1 = Returns st2" and
    3: "trackDuration df m st2 = Returns st3" by blast
  from 2 re m have "matchingOperationFound st2"
    by (auto simp: matchOperation_def nameMatches_def split: option.splits if_splits)
  with 3 have f: "matchingOperationFound st3"
    by (auto simp: trackDuration_def split: option.splits prod.splits outcome.splits)
  have "\<exists>st'. scanSpans M df (map Some post) st3 = Returns st'"
    using f times by (intro scanSpans_returns) auto
  then obtain st' where 4: "scanSpans M df (map Some post) st3 = Returns st'" by blast
  from 1 2 3 4 show ?thesis by (simp add: scanSpans_append)
qed

section \<open>Properties of Evaluate\<close>

text \<open>
  C2, as stated, fails: a nil entry is counted. On one batch whose only entry is nil
  there is no non-nil span, the loop ends with a count of 1, and a policy asking for at
  least one span samples the trace.
\<close>

theorem nil_span_counted_counterexample:
  "scanBatches literalMatch (countOnly 1) (ReceivedBatches nilOnly) initLocals
     = Returns (initLocals\<lparr>spanCount := 1\<rparr>)
   \<and> length (nonNilSpans nilOnly) = 0
   \<and> EvaluateLiteral (countOnly 1) nilOnly = Returns (Sampled, None)"
  by (simp add: evaluate_defs input_defs criteria_defs)

text \<open>
  C2, amended. Nil spans are skipped and never make \<open>Evaluate\<close> panic: the loops give
  what the inner loop gives on the non-nil spans alone, in order, except for the count,
  which is the number of all entries, nil or not, of the span lists of all batches; that
  count is the one the minimum-span-count condition compares with its threshold.
\<close>

theorem Evaluate_skips_nil_counts_entries:
  "scanBatches M df (ReceivedBatches trace) initLocals =
     (case scanSpans M df (map Some (nonNilSpans trace)) initLocals of
        NilPointerPanic \<Rightarrow> NilPointerPanic
      | Returns st \<Rightarrow> Returns (st\<lparr>spanCount := int (length (allSpans trace))\<rparr>))
   \<and> Evaluate M df tid trace =
     (case scanSpans M df (map Some (nonNilSpans trace)) initLocals of
        NilPointerPanic \<Rightarrow> NilPointerPanic
      | Returns st \<Rightarrow>
          Returns (decide df (st\<lparr>spanCount := int (length (allSpans trace))\<rparr>),
                   None :: 'e error option))"
  by (simp add: scanBatches_nonNil Evaluate_nonNil)

theorem Evaluate_skips_nil_counts_entries_witness:
  "length (allSpans nilAndSpan) = 2
   \<and> nonNilSpans nilAndSpan = [spanBetween ''a'' 10 100]
   \<and> EvaluateLiteral (countOnly 2) nilAndSpan = Returns (Sampled, None)
   \<and> EvaluateLiteral (countOnly 3) nilAndSpan = Returns (NotSampled, None)"
  using Evaluate_skips_nil_counts_entries [where 'e = string and M = literalMatch
      and df = "countOnly 2" and trace = nilAndSpan and tid = 0]
    Evaluate_skips_nil_counts_entries [where 'e = string and M = literalMatch
      and df = "countOnly 3" and trace = nilAndSpan and tid = 0]
  by (simp add: EvaluateLiteral_def decide_def initLocals_def matchOperation_def
        trackDuration_def input_defs criteria_defs)




text \<open>
  C8, as stated, fails: with a pattern configured, an aggregate holding a span named
  GET and then a span with a nil name is evaluated without a panic, because the name is
  no longer read once a match is on record.
\<close>

theorem nil_name_after_match_counterexample:
  "Some namelessSpan \<in> set (allSpans matchThenNameless)
   \<and> Name namelessSpan = None
   \<and> operationRe (nameOnly ''GET'') = Some ''GET''
   \<and> EvaluateLiteral (nameOnly ''GET'') matchThenNameless = Returns (Sampled, None)"
  by (simp add: evaluate_defs input_defs criteria_defs)

text \<open>
  C8, amended. With a pattern configured, \<open>Evaluate\<close> panics on an aggregate that has a
  non-nil span with a nil name before which, in scan order, no span matches the
  pattern. Once a span has matched, names are no longer read: on an aggregate where a
  span matches, the spans before it have a name and, if a minimum duration is
  configured, all spans have both timestamps, \<open>Evaluate\<close> returns, whatever the names
  of the spans after the match. With a minimum duration configured, it panics on any
  aggregate that has a non-nil span with a nil start or end time. On an aggregate whose
  non-nil spans have a name and both timestamps it returns a decision and a nil error.
\<close>

theorem Evaluate_nil_fields:
  "(operationRe df = Some re \<and> nonNilSpans trace = pre @ s # post \<and> Name s = None
       \<and> (\<forall>p \<in> set pre. \<not> nameMatches M re p)
      \<longrightarrow> Evaluate M df tid trace = (NilPointerPanic :: (Decision \<times> 'e error option) outcome))
   \<and> (operationRe df = Some re \<and> nonNilSpans trace = pre' @ m # post'
       \<and> (\<forall>p \<in> set pre'. Name p \<noteq> None) \<and> nameMatches M re m
       \<and> (minDurationMicros df = None
           \<or> (\<forall>x \<in> set (nonNilSpans trace). StartTime x \<noteq> None \<and> EndTime x \<noteq> None))
      \<longrightarrow> (\<exists>d. Evaluate M df tid trace = Returns (d, None :: 'e error option)))
   \<and> (minDurationMicros df \<noteq> None \<and> s' \<in> set (nonNilSpans trace)
       \<and> (StartTime s' = None \<or> EndTime s' = None)
      \<longrightarrow> Evaluate M df tid trace = (NilPointerPanic :: (Decision \<times> 'e error option) outcome))
   \<and> (wellFormed trace
      \<longrightarrow> (\<exists>d. Evaluate M df tid trace = Returns (d, None :: 'e error option)))"
proof (intro conjI impI)
  assume a: "operationRe df = Some re \<and> nonNilSpans trace = pre @ s # post \<and> Name s = None
       \<and> (\<forall>p \<in> set pre. \<not> nameMatches M re p)"
  then have "scanSpans M df (map Some (pre @ s # post)) initLocals = NilPointerPanic"
    by (intro scanSpans_nil_name [where re = re]) (simp_all add: initLocals_def)
  with a show "Evaluate M df tid trace = (NilPointerPanic :: (Decision \<times> 'e error option) outcome)"
    by (simp add: Evaluate_nonNil)
next
  assume a: "operationRe df = Some re \<and> nonNilSpans trace = pre' @ m # post'
       \<and> (\<forall>p \<in> set pre'. Name p \<noteq> None) \<and> nameMatches M re m
       \<and> (minDurationMicros df = None
           \<or> (\<forall>x \<in> set (nonNilSpans trace). StartTime x \<noteq> None \<and> EndTime x \<noteq> None))"
  then have "\<exists>st'. scanSpans M df (map Some (pre' @ m # post')) initLocals = Returns st'"
    by (intro scanSpans_after_match [where re = re]) auto
  with a show "\<exists>d. Evaluate M df tid trace = Returns (d, None :: 'e error option)"
    by (auto simp add: Evaluate_nonNil)
next
  assume a: "minDurationMicros df \<noteq> None \<and> s' \<in> set (nonNilSpans trace)
       \<and> (StartTime s' = None \<or> EndTime s' = None)"
  then have "scanSpans M df (map Some (nonNilSpans trace)) initLocals = NilPointerPanic"
    by (intro scanSpans_nil_time [where s = s']) simp_all
  then show "Evaluate M df tid trace = (NilPointerPanic :: (Decision \<times> 'e error option) outcome)"
    by (simp add: Evaluate_nonNil)
next
  assume "wellFormed trace"
  then have "scanSpans M df (map Some (nonNilSpans trace)) initLocals
               = Returns (scanned M df (nonNilSpans trace) initLocals)"
    by (simp add: wellFormed_def scanSpans_complete)
  then show "\<exists>d. Evaluate M df tid trace = Returns (d, None :: 'e error option)"
    by (simp add: Evaluate_nonNil)
qed

theorem Evaluate_nil_fields_witness:
  "nonNilSpans otherThenNameless = [spanBetween ''POST'' 10 100] @ namelessSpan # []
   \<and> Name namelessSpan = None
   \<and> \<not> nameMatches literalMatch ''GET'' (spanBetween ''POST'' 10 100)
   \<and> EvaluateLiteral (nameOnly ''GET'') otherThenNameless = NilPointerPanic
   \<and> nonNilSpans matchThenNameless = [] @ spanBetween ''GET'' 10 100 # [namelessSpan]
   \<and> nameMatches literalMatch ''GET'' (spanBetween ''GET'' 10 100)
   \<and> (\<exists>d. EvaluateLiteral (nameOnly ''GET'') matchThenNameless = Returns (d, None))
   \<and> timelessSpan \<in> set (nonNilSpans timelessTrace)
   \<and> StartTime timelessSpan = None
   \<and> EvaluateLiteral (durationOnly 1) timelessTrace = NilPointerPanic
   \<and> wellFormed twoBatches
   \<and> (\<exists>d. EvaluateLiteral allThree twoBatches = Returns (d, None))"
  using Evaluate_nil_fields [where 'e = string and df = "nameOnly ''GET''" and re = "''GET''"
      and trace = otherThenNameless and pre = "[spanBetween ''POST'' 10 100]"
      and s = namelessSpan and post = "[]" and s' = namelessSpan
      and pre' = "[]" and m = namelessSpan and post' = "[]"
      and M = literalMatch and tid = 0]
    Evaluate_nil_fields [where 'e = string and df = "nameOnly ''GET''" and re = "''GET''"
      and trace = matchThenNameless and pre = "[]"
      and s = namelessSpan and post = "[]" and s' = namelessSpan
      and pre' = "[]" and m = "spanBetween ''GET'' 10 100" and post' = "[namelessSpan]"
      and M = literalMatch and tid = 0]
    Evaluate_nil_fields [where 'e = string and df = "durationOnly 1" and re = "''GET''"
      and trace = timelessTrace and pre = "[]" and s = timelessSpan and post = "[]"
      and s' = timelessSpan and pre' = "[]" and m = namelessSpan and post' = "[]"
      and M = literalMatch and tid = 0]
    Evaluate_nil_fields [where 'e = string and df = allThree and re = "''b''"
      and trace = twoBatches and pre = "[]" and s = namelessSpan and post = "[]"
      and s' = namelessSpan and pre' = "[]" and m = namelessSpan and post' = "[]"
      and M = literalMatch and tid = 0]
  by (simp add: EvaluateLiteral_def input_defs criteria_defs literalMatch_def)

text \<open>
  C9. With only the minimum span count configured, at a threshold of zero or less,
  \<open>Evaluate\<close> returns \<open>Sampled\<close> on every aggregate, the one without batches included.
\<close>

theorem Evaluate_count_nonpositive:
  assumes "operationRe df = None" and "minDurationMicros df = None"
    and "minNumberOfSpans df = Some k" and "k \<le> 0"
  shows "Evaluate M df tid trace = Returns (Sampled, None :: 'e error option)"
  using assms
  by (simp add: Evaluate_nonNil scanSpans_unconfigured decide_def)

theorem Evaluate_count_nonpositive_witness:
  "operationRe (countOnly 0) = None \<and> minDurationMicros (countOnly 0) = None
   \<and> minNumberOfSpans (countOnly 0) = Some 0 \<and> (0 :: int) \<le> 0
   \<and> EvaluateLiteral (countOnly 0) emptyTrace = Returns (Sampled, None)
   \<and> EvaluateLiteral (countOnly (- 3)) timelessTrace = Returns (Sampled, None)"
  using Evaluate_count_nonpositive [where 'e = string and df = "countOnly 0" and k = 0
      and M = literalMatch and tid = 0 and trace = emptyTrace]
    Evaluate_count_nonpositive [where 'e = string and df = "countOnly (- 3)" and k = "- 3"
      and M = literalMatch and tid = 0 and trace = timelessTrace]
  by (simp add: EvaluateLiteral_def countOnly_def)

end
